theory Spec2Isabelle
  imports Main "HOL-Library.Word" "HOL-Library.Multiset" "HOL-Library.List_Lexorder"
begin

unbundle bit_operations_syntax

section \<open>Python strings\<close>

text \<open>
  A Python \<open>str\<close> is a sequence of Unicode code points, and \<open>len\<close>, slicing and
  comparison work on code points. A code point is a natural number below \<open>0x110000\<close>;
  the surrogates \<open>0xD800\<close> to \<open>0xDFFF\<close> are code points a \<open>str\<close> may hold
  (\<open>os.environ\<close> decodes undecodable bytes to them), although they have no UTF-8
  encoding.
\<close>

type_synonym codepoint = nat
type_synonym pystr = "codepoint list"

text \<open>A string literal of the source, all of whose characters are ASCII.\<close>

definition ascii :: "string \<Rightarrow> pystr" where
  "ascii s = map of_char s"

text \<open>
  \<open>str.isspace\<close> on one character: the code points Python counts as whitespace, which
  are the ones \<open>str.strip()\<close> removes from both ends.
\<close>

definition is_space :: "codepoint \<Rightarrow> bool" where
  "is_space c \<longleftrightarrow>
     (0x09 \<le> c \<and> c \<le> 0x0D) \<or> (0x1C \<le> c \<and> c \<le> 0x20) \<or> c = 0x85 \<or> c = 0xA0
     \<or> c = 0x1680 \<or> (0x2000 \<le> c \<and> c \<le> 0x200A) \<or> c = 0x2028 \<or> c = 0x2029
     \<or> c = 0x202F \<or> c = 0x205F \<or> c = 0x3000"

definition strip :: "pystr \<Rightarrow> pystr" where
  "strip s = rev (dropWhile is_space (rev (dropWhile is_space s)))"

text \<open>\<open>str(n)\<close> and \<open>'%d' % n\<close> for a non-negative integer: its decimal digits.\<close>

fun dec :: "nat \<Rightarrow> pystr" where
  "dec n = (if n < 10 then [48 + n] else dec (n div 10) @ [48 + n mod 10])"

declare dec.simps [simp del]

text \<open>\<open>'%0wd' % n\<close>: the decimal digits, padded with zeros on the left to width \<open>w\<close>.\<close>

definition zero_pad :: "nat \<Rightarrow> nat \<Rightarrow> pystr" where
  "zero_pad w n = replicate (w - length (dec n)) 0x30 @ dec n"

text \<open>One lower-case hexadecimal digit, as \<open>'%x'\<close> writes it.\<close>

definition hex_digit :: "nat \<Rightarrow> codepoint" where
  "hex_digit n = (if n < 10 then 48 + n else 87 + n)"

text \<open>
  \<open>s.replace(old, new)\<close>: every non-overlapping occurrence of \<open>old\<close>, found from the
  left, is replaced. After a match the scan resumes behind the occurrence, that is
  \<open>length old - 1\<close> characters into the tail. With an empty \<open>old\<close>, \<open>new\<close> is
  inserted before every character and at the end.
\<close>

fun replace_occurrences :: "pystr \<Rightarrow> pystr \<Rightarrow> pystr \<Rightarrow> pystr" where
  "replace_occurrences old new [] = []"
| "replace_occurrences old new (c # cs) =
     (if take (length old) (c # cs) = old
      then new @ replace_occurrences old new (drop (length old - 1) cs)
      else c # replace_occurrences old new cs)"

definition str_replace :: "pystr \<Rightarrow> pystr \<Rightarrow> pystr \<Rightarrow> pystr" where
  "str_replace s old new =
     (if old = [] then new @ concat (map (\<lambda>c. c # new) s)
      else replace_occurrences old new s)"

subsection \<open>Encoding to UTF-8\<close>

text \<open>
  \<open>s.encode('utf-8')\<close> with the default strict error handler: one to four bytes per
  code point, and \<open>UnicodeEncodeError\<close> if the string holds a surrogate.
\<close>

type_synonym byte = "8 word"

datatype py_exception = SystemExit int | UnicodeEncodeError

definition encodable :: "codepoint \<Rightarrow> bool" where
  "encodable c \<longleftrightarrow> c < 0xD800 \<or> (0xE000 \<le> c \<and> c < 0x110000)"

definition utf8_char :: "codepoint \<Rightarrow> byte list" where
  "utf8_char c =
     (if c < 0x80 then [of_nat c]
      else if c < 0x800 then [of_nat (0xC0 + c div 64), of_nat (0x80 + c mod 64)]
      else if c < 0x10000 then
        [of_nat (0xE0 + c div 4096), of_nat (0x80 + c div 64 mod 64), of_nat (0x80 + c mod 64)]
      else
        [of_nat (0xF0 + c div 262144), of_nat (0x80 + c div 4096 mod 64),
         of_nat (0x80 + c div 64 mod 64), of_nat (0x80 + c mod 64)])"

definition utf8_bytes :: "pystr \<Rightarrow> byte list" where
  "utf8_bytes s = concat (map utf8_char s)"

definition encode_utf8 :: "pystr \<Rightarrow> py_exception + byte list" where
  "encode_utf8 s = (if list_all encodable s then Inr (utf8_bytes s) else Inl UnicodeEncodeError)"

section \<open>The canonical serializer\<close>

subsection \<open>\<open>json.dumps\<close> on a dictionary of strings\<close>

text \<open>
  \<open>json.encoder.encode_basestring\<close>, the escaping used under \<open>ensure_ascii=False\<close>:
  the pattern \<open>[\x00-\x1f\\"\b\f\n\r\t]\<close> selects the characters to replace, and
  \<open>ESCAPE_DCT\<close> gives the replacement: two-character escapes for backslash, quote,
  backspace, form feed, line feed, carriage return and tab, and \<open>\u00XX\<close> (lower-case
  hexadecimal) for the other characters below \<open>0x20\<close>.
\<close>

definition escape_dct :: "codepoint \<Rightarrow> pystr" where
  "escape_dct c =
     (if c = 0x5C then [0x5C, 0x5C]
      else if c = 0x22 then [0x5C, 0x22]
      else if c = 0x08 then [0x5C, 0x62]
      else if c = 0x0C then [0x5C, 0x66]
      else if c = 0x0A then [0x5C, 0x6E]
      else if c = 0x0D then [0x5C, 0x72]
      else if c = 0x09 then [0x5C, 0x74]
      else [0x5C, 0x75, 0x30, 0x30, hex_digit (c div 16), hex_digit (c mod 16)])"

definition escape_matches :: "codepoint \<Rightarrow> bool" where
  "escape_matches c \<longleftrightarrow> c \<le> 0x1F \<or> c = 0x5C \<or> c = 0x22"

definition escape_char :: "codepoint \<Rightarrow> pystr" where
  "escape_char c = (if escape_matches c then escape_dct c else [c])"

definition encode_basestring :: "pystr \<Rightarrow> pystr" where
  "encode_basestring s = [0x22] @ concat (map escape_char s) @ [0x22]"

text \<open>\<open>sep.join(parts)\<close>.\<close>

fun join :: "pystr \<Rightarrow> pystr list \<Rightarrow> pystr" where
  "join sep [] = []"
| "join sep [p] = p"
| "join sep (p # q # ps) = p @ sep @ join sep (q # ps)"

text \<open>
  A dictionary is the list of its items in insertion order, with distinct keys.
  \<open>json.dumps(d, ensure_ascii=False, separators=(',', ':'), sort_keys=True)\<close> for a
  dictionary from strings to strings: the items are sorted (by key, the keys being
  distinct; Python compares strings code point by code point), each one is written as
  key, key separator, value, and the members are joined by the item separator inside
  braces.
\<close>

type_synonym pydict = "(pystr \<times> pystr) list"

definition json_dumps :: "pydict \<Rightarrow> pystr" where
  "json_dumps dct =
     (if dct = [] then ascii ''{}''
      else ascii ''{''
         @ join (ascii '','')
             (map (\<lambda>(k, v). encode_basestring k @ ascii '':'' @ encode_basestring v)
                (sort_key fst dct))
         @ ascii ''}'')"

subsection \<open>\<open>create_payload\<close>\<close>

definition payload_dict ::
  "pystr \<Rightarrow> pystr \<Rightarrow> pystr \<Rightarrow> pystr \<Rightarrow> pystr \<Rightarrow> pystr \<Rightarrow> pydict" where
  "payload_dict timestamp name email resume_link repository_link action_run_link =
     [(ascii ''timestamp'', timestamp),
      (ascii ''name'', name),
      (ascii ''email'', email),
      (ascii ''resume_link'', resume_link),
      (ascii ''repository_link'', repository_link),
      (ascii ''action_run_link'', action_run_link)]"

definition create_payload ::
  "pystr \<Rightarrow> pystr \<Rightarrow> pystr \<Rightarrow> pystr \<Rightarrow> pystr \<Rightarrow> pystr \<Rightarrow> pystr" where
  "create_payload timestamp name email resume_link repository_link action_run_link =
     json_dumps
       (payload_dict timestamp name email resume_link repository_link action_run_link)"

section \<open>The signer\<close>

subsection \<open>\<open>hashlib.sha256\<close>\<close>

text \<open>
  SHA-256 as FIPS 180-4 defines it, on bytes: the message is padded to a multiple of 64
  bytes, and each block updates the eight 32-bit words of the hash state through the
  message schedule and 64 rounds. Addition is modulo \<open>2^32\<close>.
\<close>

type_synonym w32 = "32 word"

definition rotr :: "nat \<Rightarrow> w32 \<Rightarrow> w32" where
  "rotr n x = drop_bit n x OR push_bit (32 - n) x"

definition Ch :: "w32 \<Rightarrow> w32 \<Rightarrow> w32 \<Rightarrow> w32" where
  "Ch x y z = (x AND y) XOR (NOT x AND z)"

definition Maj :: "w32 \<Rightarrow> w32 \<Rightarrow> w32 \<Rightarrow> w32" where
  "Maj x y z = (x AND y) XOR (x AND z) XOR (y AND z)"

definition Sigma0 :: "w32 \<Rightarrow> w32" where
  "Sigma0 x = rotr 2 x XOR rotr 13 x XOR rotr 22 x"

definition Sigma1 :: "w32 \<Rightarrow> w32" where
  "Sigma1 x = rotr 6 x XOR rotr 11 x XOR rotr 25 x"

definition sigma0 :: "w32 \<Rightarrow> w32" where
  "sigma0 x = rotr 7 x XOR rotr 18 x XOR drop_bit 3 x"

definition sigma1 :: "w32 \<Rightarrow> w32" where
  "sigma1 x = rotr 17 x XOR rotr 19 x XOR drop_bit 10 x"

text \<open>The round constants and the initial hash value.\<close>

definition K256 :: "w32 list" where
  "K256 =
    [0x428A2F98, 0x71374491, 0xB5C0FBCF, 0xE9B5DBA5, 0x3956C25B, 0x59F111F1, 0x923F82A4, 0xAB1C5ED5,
     0xD807AA98, 0x12835B01, 0x243185BE, 0x550C7DC3, 0x72BE5D74, 0x80DEB1FE, 0x9BDC06A7, 0xC19BF174,
     0xE49B69C1, 0xEFBE4786, 0x0FC19DC6, 0x240CA1CC, 0x2DE92C6F, 0x4A7484AA, 0x5CB0A9DC, 0x76F988DA,
     0x983E5152, 0xA831C66D, 0xB00327C8, 0xBF597FC7, 0xC6E00BF3, 0xD5A79147, 0x06CA6351, 0x14292967,
     0x27B70A85, 0x2E1B2138, 0x4D2C6DFC, 0x53380D13, 0x650A7354, 0x766A0ABB, 0x81C2C92E, 0x92722C85,
     0xA2BFE8A1, 0xA81A664B, 0xC24B8B70, 0xC76C51A3, 0xD192E819, 0xD6990624, 0xF40E3585, 0x106AA070,
     0x19A4C116, 0x1E376C08, 0x2748774C, 0x34B0BCB5, 0x391C0CB3, 0x4ED8AA4A, 0x5B9CCA4F, 0x682E6FF3,
     0x748F82EE, 0x78A5636F, 0x84C87814, 0x8CC70208, 0x90BEFFFA, 0xA4506CEB, 0xBEF9A3F7, 0xC67178F2]"

type_synonym hash_state = "w32 \<times> w32 \<times> w32 \<times> w32 \<times> w32 \<times> w32 \<times> w32 \<times> w32"

definition H256 :: hash_state where
  "H256 =
    (0x6A09E667, 0xBB67AE85, 0x3C6EF372, 0xA54FF53A, 0x510E527F, 0x9B05688C, 0x1F83D9AB, 0x5BE0CD19)"

text \<open>Big-endian conversions between bytes and words.\<close>

definition be_word32 :: "byte list \<Rightarrow> w32" where
  "be_word32 bs = fold (\<lambda>b w. push_bit 8 w OR ucast b) bs 0"

definition be_bytes32 :: "w32 \<Rightarrow> byte list" where
  "be_bytes32 w = [ucast (drop_bit 24 w), ucast (drop_bit 16 w), ucast (drop_bit 8 w), ucast w]"

definition be_bytes64 :: "64 word \<Rightarrow> byte list" where
  "be_bytes64 w = map (\<lambda>i. ucast (drop_bit (8 * i) w)) [7, 6, 5, 4, 3, 2, 1, 0]"

text \<open>
  Padding: the byte \<open>0x80\<close>, zero bytes up to 56 modulo 64, and the length of the
  message in bits as a 64-bit big-endian number.
\<close>

definition pad_message :: "byte list \<Rightarrow> byte list" where
  "pad_message m =
     m @ [0x80] @ replicate ((119 - length m mod 64) mod 64) 0
       @ be_bytes64 (of_nat (8 * length m))"

text \<open>The consecutive blocks of \<open>n\<close> elements of a list.\<close>

definition chunks :: "nat \<Rightarrow> 'a list \<Rightarrow> 'a list list" where
  "chunks n xs = map (\<lambda>i. take n (drop (n * i) xs)) [0 ..< length xs div n]"

fun extend_schedule :: "nat \<Rightarrow> w32 list \<Rightarrow> w32 list" where
  "extend_schedule 0 w = w"
| "extend_schedule (Suc n) w =
     (let t = length w
      in extend_schedule n
           (w @ [sigma1 (w ! (t - 2)) + w ! (t - 7) + sigma0 (w ! (t - 15)) + w ! (t - 16)]))"

definition message_schedule :: "byte list \<Rightarrow> w32 list" where
  "message_schedule block = extend_schedule 48 (map be_word32 (chunks 4 block))"

fun round256 :: "w32 \<times> w32 \<Rightarrow> hash_state \<Rightarrow> hash_state" where
  "round256 (k, w) (a, b, c, d, e, f, g, h) =
     (let T1 = h + Sigma1 e + Ch e f g + k + w;
          T2 = Sigma0 a + Maj a b c
      in (T1 + T2, a, b, c, d + T1, e, f, g))"

fun add_state :: "hash_state \<Rightarrow> hash_state \<Rightarrow> hash_state" where
  "add_state (a, b, c, d, e, f, g, h) (a', b', c', d', e', f', g', h') =
     (a + a', b + b', c + c', d + d', e + e', f + f', g + g', h + h')"

definition compress :: "byte list \<Rightarrow> hash_state \<Rightarrow> hash_state" where
  "compress block H = add_state H (fold round256 (zip K256 (message_schedule block)) H)"

fun state_bytes :: "hash_state \<Rightarrow> byte list" where
  "state_bytes (a, b, c, d, e, f, g, h) = concat (map be_bytes32 [a, b, c, d, e, f, g, h])"

definition sha256 :: "byte list \<Rightarrow> byte list" where
  "sha256 m = state_bytes (fold compress (chunks 64 (pad_message m)) H256)"

subsection \<open>\<open>hmac.new\<close>\<close>

text \<open>
  \<open>hmac.new(key, msg, hashlib.sha256).digest()\<close>, as \<open>Lib/hmac.py\<close> computes it:
  a key longer than the block size of 64 bytes is replaced by its digest, the key is
  padded with zero bytes to the block size (\<open>ljust\<close>), the inner hash is fed the key
  translated by \<open>x ^ 0x36\<close> and then the message, and the outer hash the key
  translated by \<open>x ^ 0x5C\<close> and then the inner digest.
\<close>

definition hmac_new :: "byte list \<Rightarrow> byte list \<Rightarrow> byte list" where
  "hmac_new key msg =
     (let key1 = (if length key > 64 then sha256 key else key);
          key2 = key1 @ replicate (64 - length key1) 0
      in sha256 (map (\<lambda>x. x XOR 0x5C) key2 @ sha256 (map (\<lambda>x. x XOR 0x36) key2 @ msg)))"

text \<open>\<open>hexdigest()\<close>: two lower-case hexadecimal digits per byte.\<close>

definition hexdigest :: "byte list \<Rightarrow> pystr" where
  "hexdigest bs = concat (map (\<lambda>b. [hex_digit (unat b div 16), hex_digit (unat b mod 16)]) bs)"

subsection \<open>\<open>compute_signature\<close>\<close>

text \<open>
  The payload is encoded first, then the secret; either encoding may raise. There is no
  other check on the secret.
\<close>

definition compute_signature :: "pystr \<Rightarrow> pystr \<Rightarrow> py_exception + pystr" where
  "compute_signature payload secret =
     (case encode_utf8 payload of
        Inl e \<Rightarrow> Inl e
      | Inr payload_bytes \<Rightarrow>
          (case encode_utf8 secret of
             Inl e \<Rightarrow> Inl e
           | Inr secret_bytes \<Rightarrow> Inr (hexdigest (hmac_new secret_bytes payload_bytes))))"

subsection \<open>The standard HMAC construction\<close>

text \<open>
  The construction the spec names, in its words: the key is hashed when it is longer than
  the block size and padded with zero bytes to the block size; the inner pad is the byte
  \<open>0x36\<close> repeated over a block and the outer pad the byte \<open>0x5C\<close>; the first pass
  hashes the key xor the inner pad followed by the text, and the second pass hashes the
  key xor the outer pad followed by the result of the first. The tag is the whole result
  of the second pass.
\<close>

definition xor_bytes :: "byte list \<Rightarrow> byte list \<Rightarrow> byte list" where
  "xor_bytes xs ys = map (\<lambda>(x, y). x XOR y) (zip xs ys)"

definition block_sized_key :: "(byte list \<Rightarrow> byte list) \<Rightarrow> nat \<Rightarrow> byte list \<Rightarrow> byte list" where
  "block_sized_key h B key =
     (let k = (if B < length key then h key else key) in k @ replicate (B - length k) 0)"

definition standard_hmac ::
  "(byte list \<Rightarrow> byte list) \<Rightarrow> nat \<Rightarrow> byte list \<Rightarrow> byte list \<Rightarrow> byte list" where
  "standard_hmac h B key text =
     (let K0 = block_sized_key h B key;
          ipad = replicate B 0x36;
          opad = replicate B 0x5C
      in h (xor_bytes K0 opad @ h (xor_bytes K0 ipad @ text)))"

text \<open>The lower-case hexadecimal digits.\<close>

definition is_lower_hex :: "codepoint \<Rightarrow> bool" where
  "is_lower_hex c \<longleftrightarrow> (0x30 \<le> c \<and> c \<le> 0x39) \<or> (0x61 \<le> c \<and> c \<le> 0x66)"

section \<open>The timestamp generator\<close>

text \<open>
  The value \<open>datetime.now(timezone.utc)\<close> returns: an aware datetime whose offset is
  zero. The class keeps its fields in range (\<open>MINYEAR = 1\<close>, \<open>MAXYEAR = 9999\<close>).
\<close>

record datetime =
  year :: nat
  month :: nat
  day :: nat
  hour :: nat
  minute :: nat
  second :: nat
  microsecond :: nat

definition is_leap :: "nat \<Rightarrow> bool" where
  "is_leap y \<longleftrightarrow> y mod 4 = 0 \<and> (y mod 100 \<noteq> 0 \<or> y mod 400 = 0)"

definition days_in_month :: "nat \<Rightarrow> nat \<Rightarrow> nat" where
  "days_in_month y m =
     (if m = 2 then (if is_leap y then 29 else 28)
      else if m = 4 \<or> m = 6 \<or> m = 9 \<or> m = 11 then 30 else 31)"

definition valid_datetime :: "datetime \<Rightarrow> bool" where
  "valid_datetime dt \<longleftrightarrow>
     1 \<le> year dt \<and> year dt \<le> 9999 \<and> 1 \<le> month dt \<and> month dt \<le> 12
     \<and> 1 \<le> day dt \<and> day dt \<le> days_in_month (year dt) (month dt)
     \<and> hour dt < 24 \<and> minute dt < 60 \<and> second dt < 60 \<and> microsecond dt < 1000000"

text \<open>
  \<open>dt.isoformat(timespec='milliseconds')\<close> for such a datetime: the format
  \<open>%04d-%02d-%02dT%02d:%02d:%02d.%03d\<close>, the last field being the microseconds
  divided by 1000, followed by the offset \<open>+00:00\<close>.
\<close>

definition isoformat_milliseconds :: "datetime \<Rightarrow> pystr" where
  "isoformat_milliseconds dt =
     zero_pad 4 (year dt) @ ascii ''-'' @ zero_pad 2 (month dt) @ ascii ''-''
     @ zero_pad 2 (day dt) @ ascii ''T'' @ zero_pad 2 (hour dt) @ ascii '':''
     @ zero_pad 2 (minute dt) @ ascii '':'' @ zero_pad 2 (second dt) @ ascii ''.''
     @ zero_pad 3 (microsecond dt div 1000) @ ascii ''+00:00''"

text \<open>\<open>generate_timestamp\<close>, given the instant the clock returns.\<close>

definition generate_timestamp :: "datetime \<Rightarrow> pystr" where
  "generate_timestamp now =
     str_replace (isoformat_milliseconds now) (ascii ''+00:00'') (ascii ''Z'')"

text \<open>
  The pattern \<open>YYYY-MM-DDTHH:MM:SS.mmmZ\<close>: 24 characters, digits where the pattern
  has letters other than \<open>T\<close> and \<open>Z\<close>, and the separators as written.
\<close>

definition is_digit :: "codepoint \<Rightarrow> bool" where
  "is_digit c \<longleftrightarrow> 0x30 \<le> c \<and> c \<le> 0x39"

definition matches_timestamp_pattern :: "pystr \<Rightarrow> bool" where
  "matches_timestamp_pattern s \<longleftrightarrow>
     length s = 24
     \<and> list_all is_digit (take 4 s) \<and> s ! 4 = 0x2D
     \<and> list_all is_digit (take 2 (drop 5 s)) \<and> s ! 7 = 0x2D
     \<and> list_all is_digit (take 2 (drop 8 s)) \<and> s ! 10 = 0x54
     \<and> list_all is_digit (take 2 (drop 11 s)) \<and> s ! 13 = 0x3A
     \<and> list_all is_digit (take 2 (drop 14 s)) \<and> s ! 16 = 0x3A
     \<and> list_all is_digit (take 2 (drop 17 s)) \<and> s ! 19 = 0x2E
     \<and> list_all is_digit (take 3 (drop 20 s)) \<and> s ! 23 = 0x5A"

section \<open>The program\<close>

subsection \<open>The process and its surroundings\<close>

text \<open>
  What a run can observe and change: the environment it reads, and the texts written to
  standard output and standard error (one entry per \<open>print\<close> call, without the newline
  \<open>print\<close> appends) and the requests sent. The traceback the interpreter writes
  after an exception nothing catches is not among these texts.
\<close>

type_synonym environ = "pystr \<rightharpoonup> pystr"

record request =
  url :: pystr
  body :: pystr
  headers :: "(pystr \<times> pystr) list"
  timeout :: nat

record world =
  stdout :: "pystr list"
  stderr :: "pystr list"
  requests :: "request list"

text \<open>
  What \<open>requests.post\<close> does with a request: it returns a response (status code,
  reason phrase, the text of \<open>dict(response.headers)\<close>, body text) or raises a
  \<open>RequestException\<close> with a message.
\<close>

datatype reply =
  Response (status_code: nat) (reason: pystr) (headers_text: pystr) (response_text: pystr)
| RequestException (message: pystr)

text \<open>
  A computation either raises or returns a value, and changes the world.
\<close>

type_synonym 'a io = "world \<Rightarrow> (py_exception + 'a) \<times> world"

definition io_return :: "'a \<Rightarrow> 'a io" where
  "io_return a = (\<lambda>w. (Inr a, w))"

definition io_raise :: "py_exception \<Rightarrow> 'a io" where
  "io_raise e = (\<lambda>w. (Inl e, w))"

definition io_bind :: "'a io \<Rightarrow> ('a \<Rightarrow> 'b io) \<Rightarrow> 'b io" where
  "io_bind m f = (\<lambda>w. case m w of (Inl e, w') \<Rightarrow> (Inl e, w') | (Inr a, w') \<Rightarrow> f a w')"

definition io_lift :: "py_exception + 'a \<Rightarrow> 'a io" where
  "io_lift r = (\<lambda>w. (r, w))"

text \<open>
  \<open>print(s)\<close> writes to \<open>sys.stdout\<close>, a text stream that encodes the whole text
  before it writes any of it. With the error handler \<open>strict\<close> a character outside the
  encoding of the stream makes \<open>write\<close> raise \<open>UnicodeEncodeError\<close>, and nothing is
  written. Which texts the stream can encode depends on how the process was started, so
  it is a parameter of the program.
\<close>

type_synonym stream = "pystr \<Rightarrow> bool"

definition print :: "stream \<Rightarrow> pystr \<Rightarrow> unit io" where
  "print out s =
     (\<lambda>w. if out s then (Inr (), w\<lparr>stdout := stdout w @ [s]\<rparr>)
          else (Inl UnicodeEncodeError, w))"

text \<open>
  \<open>print(s, file=sys.stderr)\<close>: the error handler of \<open>sys.stderr\<close> is
  \<open>backslashreplace\<close>, which replaces what the stream cannot encode, so this call does
  not raise.
\<close>

definition print_stderr :: "pystr \<Rightarrow> unit io" where
  "print_stderr s = (\<lambda>w. (Inr (), w\<lparr>stderr := stderr w @ [s]\<rparr>))"

definition sys_exit :: "int \<Rightarrow> 'a io" where
  "sys_exit n = io_raise (SystemExit n)"


subsection \<open>\<open>get_env_variable\<close>\<close>

text \<open>
  \<open>os.environ.get(name)\<close> is \<open>None\<close> for a variable that is not set; \<open>not value\<close>
  holds for \<open>None\<close> and for the empty string.
\<close>

definition get_env_variable :: "environ \<Rightarrow> pystr \<Rightarrow> pystr io" where
  "get_env_variable env name =
     (let value = env name
      in if value = None \<or> value = Some []
         then io_bind
                (print_stderr (ascii ''Error: '' @ name @ ascii '' environment variable is not set''))
                (\<lambda>_. sys_exit 1)
         else io_return (strip (the value)))"

subsection \<open>\<open>submit_application\<close>\<close>

text \<open>
  \<open>response.raise_for_status()\<close> raises an \<open>HTTPError\<close>, which is a
  \<open>RequestException\<close>, for a status from 400 to 599.
\<close>

definition http_error_msg :: "pystr \<Rightarrow> nat \<Rightarrow> pystr \<Rightarrow> pystr option" where
  "http_error_msg u st rs =
     (if 400 \<le> st \<and> st < 500
      then Some (dec st @ ascii '' Client Error: '' @ rs @ ascii '' for url: '' @ u)
      else if 500 \<le> st \<and> st < 600
      then Some (dec st @ ascii '' Server Error: '' @ rs @ ascii '' for url: '' @ u)
      else None)"

definition submit_application :: "(request \<Rightarrow> reply) \<Rightarrow> pystr \<Rightarrow> pystr \<Rightarrow> reply io" where
  "submit_application post payload signature =
     (let req = \<lparr>url = ascii ''https://b12.io/apply/submission'',
                 body = payload,
                 headers = [(ascii ''Content-Type'', ascii ''application/json''),
                            (ascii ''X-Signature-256'', ascii ''sha256='' @ signature)],
                 timeout = 30\<rparr>;
          failed = (\<lambda>e. io_bind (print_stderr (ascii ''Error submitting application: '' @ e))
                            (\<lambda>_. sys_exit 1))
      in io_bind (\<lambda>w. (Inr (post req), w\<lparr>requests := requests w @ [req]\<rparr>))
           (\<lambda>r. case r of
                   RequestException e \<Rightarrow> failed e
                 | Response st rs hs tx \<Rightarrow>
                     (case http_error_msg (url req) st rs of
                        Some e \<Rightarrow> failed e
                      | None \<Rightarrow> io_return r)))"

subsection \<open>\<open>main\<close>\<close>

definition main :: "stream \<Rightarrow> environ \<Rightarrow> datetime \<Rightarrow> (request \<Rightarrow> reply) \<Rightarrow> unit io" where
  "main out env now post =
     io_bind (print out (ascii ''=== B12 Application Submission ==='' @ [0x0A])) (\<lambda>_.
     io_bind (get_env_variable env (ascii ''B12_SECRET'')) (\<lambda>secret.
     io_bind (print out (ascii ''Secret length: '' @ dec (length secret) @ ascii '' characters'')) (\<lambda>_.
     io_bind (print out (ascii ''Secret starts with: '' @ take 4 secret @ ascii ''...'')) (\<lambda>_.
     io_bind (get_env_variable env (ascii ''B12_NAME'')) (\<lambda>name.
     io_bind (get_env_variable env (ascii ''B12_EMAIL'')) (\<lambda>email.
     io_bind (get_env_variable env (ascii ''B12_RESUME_LINK'')) (\<lambda>resume_link.
     io_bind (get_env_variable env (ascii ''B12_REPOSITORY_LINK'')) (\<lambda>repository_link.
     io_bind (get_env_variable env (ascii ''B12_ACTION_RUN_LINK'')) (\<lambda>action_run_link.
     io_bind (io_return (generate_timestamp now)) (\<lambda>timestamp.
     io_bind (print out (ascii ''Timestamp: '' @ timestamp)) (\<lambda>_.
     io_bind (io_return (create_payload timestamp name email resume_link repository_link
                           action_run_link)) (\<lambda>payload.
     io_bind (print out ([0x0A] @ ascii ''Canonical Payload:'' @ [0x0A] @ payload @ [0x0A])) (\<lambda>_.
     io_bind (io_lift (compute_signature payload secret)) (\<lambda>signature.
     io_bind (print out (ascii ''HMAC-SHA256 Signature: '' @ signature @ [0x0A])) (\<lambda>_.
     io_bind (print out (ascii ''Submitting application to B12...'')) (\<lambda>_.
     io_bind (submit_application post payload signature) (\<lambda>response.
     io_bind (print out ([0x0A] @ ascii ''Response Status: '' @ dec (status_code response))) (\<lambda>_.
     io_bind (print out (ascii ''Response Headers: '' @ headers_text response)) (\<lambda>_.
     io_bind (print out ([0x0A] @ ascii ''Submission Receipt:'' @ [0x0A] @ response_text response)) (\<lambda>_.
     print out ([0x0A] @ ascii ''=== Submission Complete ==='')))))))))))))))))))))"

text \<open>A run of the program: \<open>main\<close> from a world where nothing has happened yet.\<close>

definition initial_world :: world where
  "initial_world = \<lparr>stdout = [], stderr = [], requests = []\<rparr>"

definition run ::
  "stream \<Rightarrow> environ \<Rightarrow> datetime \<Rightarrow> (request \<Rightarrow> reply) \<Rightarrow> (py_exception + unit) \<times> world" where
  "run out env now post = main out env now post initial_world"





subsection \<open>Concrete surroundings\<close>

text \<open>
  A standard output with the encoding UTF-8 and the error handler \<open>strict\<close>, an
  instant, a server that accepts every request, and environments built from lists.
\<close>

definition utf8_strict :: stream where
  "utf8_strict s = list_all encodable s"

definition new_year_2024 :: datetime where
  "new_year_2024 =
     \<lparr>year = 2024, month = 1, day = 1, hour = 0, minute = 0, second = 0, microsecond = 0\<rparr>"

definition accepting_server :: "request \<Rightarrow> reply" where
  "accepting_server req = Response 200 (ascii ''OK'') (ascii ''{}'') (ascii ''received'')"

definition environ_of :: "(string \<times> pystr) list \<Rightarrow> environ" where
  "environ_of kvs = map_of (map (\<lambda>(k, v). (ascii k, v)) kvs)"

text \<open>An environment with the six variables set.\<close>

definition complete_environ :: environ where
  "complete_environ =
     environ_of
       [(''B12_SECRET'', ascii ''s3cr3t''),
        (''B12_NAME'', ascii ''Ada Lovelace''),
        (''B12_EMAIL'', ascii ''ada@example.com''),
        (''B12_RESUME_LINK'', ascii ''https://x/r.pdf''),
        (''B12_REPOSITORY_LINK'', ascii ''https://x/repo''),
        (''B12_ACTION_RUN_LINK'', ascii ''https://x/run/1'')]"

text \<open>The items of the payload dictionary in the order of their keys.\<close>

definition sorted_items :: "pystr \<Rightarrow> pystr \<Rightarrow> pystr \<Rightarrow> pystr \<Rightarrow> pystr \<Rightarrow> pystr \<Rightarrow> pydict" where
  "sorted_items timestamp name email resume_link repository_link action_run_link =
     [(ascii ''action_run_link'', action_run_link),
      (ascii ''email'', email),
      (ascii ''name'', name),
      (ascii ''repository_link'', repository_link),
      (ascii ''resume_link'', resume_link),
      (ascii ''timestamp'', timestamp)]"

text \<open>
  The characters of a timestamp before the suffix, written out digit by digit.
\<close>

definition timestamp_digits :: "datetime \<Rightarrow> pystr" where
  "timestamp_digits dt =
     [48 + year dt div 1000, 48 + year dt div 100 mod 10, 48 + year dt div 10 mod 10,
      48 + year dt mod 10, 0x2D,
      48 + month dt div 10, 48 + month dt mod 10, 0x2D,
      48 + day dt div 10, 48 + day dt mod 10, 0x54,
      48 + hour dt div 10, 48 + hour dt mod 10, 0x3A,
      48 + minute dt div 10, 48 + minute dt mod 10, 0x3A,
      48 + second dt div 10, 48 + second dt mod 10, 0x2E,
      48 + microsecond dt div 1000 div 100, 48 + microsecond dt div 1000 div 10 mod 10,
      48 + microsecond dt div 1000 mod 10]"

section \<open>Properties of the serializer\<close>

subsection \<open>Sorting items with distinct keys\<close>

lemma filter_same_key:
  "distinct (map f xs) \<Longrightarrow> k \<in> set xs \<Longrightarrow> filter (\<lambda>x. f k = f x) xs = [k]"
proof (induction xs)
  case Nil
  then show ?case by simp
next
  case (Cons x xs)
  show ?case
  proof (cases "k = x")
    case True
    have "filter (\<lambda>y. f x = f y) xs = []"
      using Cons.prems(1) by (force simp: filter_empty_conv)
    with True show ?thesis by simp
  next
    case False
    with Cons.prems have k: "k \<in> set xs" and d: "distinct (map f xs)" by auto
    from k Cons.prems(1) have "f k \<noteq> f x" by (force simp: image_iff)
    with Cons.IH [OF d k] show ?thesis by simp
  qed
qed

lemma sort_key_unique:
  assumes m: "mset xs = mset ys" and d: "distinct (map f ys)" and s: "sorted (map f ys)"
  shows "sort_key f xs = ys"
proof (rule properties_for_sort_key)
  show "mset ys = mset xs" using m by simp
  show "sorted (map f ys)" by (rule s)
  fix k assume k: "k \<in> set ys"
  have "mset (map f xs) = mset (map f ys)" using m by (metis mset_map)
  then have dx: "distinct (map f xs)" using d by (metis mset_eq_imp_distinct_iff)
  have kx: "k \<in> set xs" using k m by (metis mset_eq_setD)
  show "filter (\<lambda>x. f k = f x) ys = filter (\<lambda>x. f k = f x) xs"
    by (simp add: filter_same_key [OF d k] filter_same_key [OF dx kx])
qed

lemma mset_sorted_items: "mset (payload_dict t n e r p a) = mset (sorted_items t n e r p a)"
  by (simp add: payload_dict_def sorted_items_def)

lemma sorted_items_keys:
  "distinct (map fst (sorted_items t n e r p a))" "sorted (map fst (sorted_items t n e r p a))"
  by (simp_all add: sorted_items_def ascii_def)

lemma sort_payload_items:
  "mset dct = mset (payload_dict t n e r p a) \<Longrightarrow> sort_key fst dct = sorted_items t n e r p a"
  by (rule sort_key_unique) (simp_all add: mset_sorted_items sorted_items_keys)

lemma json_dumps_payload:
  assumes "mset dct = mset (payload_dict t n e r p a)"
  shows \<open>json_dumps dct =
      ascii ''{"action_run_link":'' @ encode_basestring a
    @ ascii '',"email":'' @ encode_basestring e
    @ ascii '',"name":'' @ encode_basestring n
    @ ascii '',"repository_link":'' @ encode_basestring p
    @ ascii '',"resume_link":'' @ encode_basestring r
    @ ascii '',"timestamp":'' @ encode_basestring t
    @ ascii ''}''\<close>
proof -
  have ne: "dct \<noteq> []" using assms by (auto simp: payload_dict_def)
  have k: \<open>encode_basestring (ascii ''action_run_link'') = ascii ''"action_run_link"''\<close>
    \<open>encode_basestring (ascii ''email'') = ascii ''"email"''\<close>
    \<open>encode_basestring (ascii ''name'') = ascii ''"name"''\<close>
    \<open>encode_basestring (ascii ''repository_link'') = ascii ''"repository_link"''\<close>
    \<open>encode_basestring (ascii ''resume_link'') = ascii ''"resume_link"''\<close>
    \<open>encode_basestring (ascii ''timestamp'') = ascii ''"timestamp"''\<close>
    by (simp_all add: encode_basestring_def ascii_def escape_char_def escape_matches_def)
  show ?thesis
    using ne by (simp add: json_dumps_def sort_payload_items [OF assms] sorted_items_def k)
      (simp add: ascii_def)
qed


lemma escape_char_unchanged_iff:
  "escape_char c = [c] \<longleftrightarrow> \<not> (c = 0x22 \<or> c = 0x5C \<or> c < 0x20)"
  by (auto simp: escape_char_def escape_matches_def escape_dct_def)

subsection \<open>The claims about \<open>create_payload\<close>\<close>

text \<open>
  C1. For name \<open>Ada Lovelace\<close>, email \<open>ada@example.com\<close>, resume link
  \<open>https://x/r.pdf\<close>, repository link \<open>https://x/repo\<close>, action run link
  \<open>https://x/run/1\<close> and timestamp \<open>2024-01-01T00:00:00.000Z\<close>, \<open>create_payload\<close>
  returns exactly the string on the right, with nothing after the closing brace.
\<close>

theorem create_payload_example:
  \<open>create_payload (ascii ''2024-01-01T00:00:00.000Z'') (ascii ''Ada Lovelace'')
     (ascii ''ada@example.com'') (ascii ''https://x/r.pdf'') (ascii ''https://x/repo'')
     (ascii ''https://x/run/1'')
   = ascii ''{"action_run_link":"https://x/run/1","email":"ada@example.com","name":"Ada Lovelace","repository_link":"https://x/repo","resume_link":"https://x/r.pdf","timestamp":"2024-01-01T00:00:00.000Z"}''\<close>
  by (simp add: create_payload_def payload_dict_def json_dumps_def ascii_def
      encode_basestring_def escape_char_def escape_matches_def)

text \<open>
  C2. Whatever the six values are, and in whatever order the six items were inserted
  into the dictionary, the serialization lists the keys in the order
  \<open>action_run_link\<close>, \<open>email\<close>, \<open>name\<close>, \<open>repository_link\<close>, \<open>resume_link\<close>,
  \<open>timestamp\<close>, which is the ascending order of the keys; the dictionary
  \<open>create_payload\<close> builds is one such order.
\<close>

theorem create_payload_key_order:
  assumes "mset dct = mset (payload_dict t n e r p a)"
  shows \<open>json_dumps dct =
      ascii ''{"action_run_link":'' @ encode_basestring a
    @ ascii '',"email":'' @ encode_basestring e
    @ ascii '',"name":'' @ encode_basestring n
    @ ascii '',"repository_link":'' @ encode_basestring p
    @ ascii '',"resume_link":'' @ encode_basestring r
    @ ascii '',"timestamp":'' @ encode_basestring t
    @ ascii ''}''
    \<and> create_payload t n e r p a = json_dumps dct
    \<and> map fst (sort_key fst dct) =
        [ascii ''action_run_link'', ascii ''email'', ascii ''name'', ascii ''repository_link'',
         ascii ''resume_link'', ascii ''timestamp'']
    \<and> sorted_wrt (<) (map fst (sort_key fst dct))\<close>
proof -
  have "json_dumps (payload_dict t n e r p a) = json_dumps dct"
    by (simp add: json_dumps_payload [OF assms] json_dumps_payload [OF refl])
  moreover have "sorted_wrt (<) (map fst (sorted_items t n e r p a))"
    by (simp add: sorted_items_def ascii_def)
  ultimately show ?thesis
    by (simp add: json_dumps_payload [OF assms] create_payload_def sort_payload_items [OF assms])
       (simp add: sorted_items_def)
qed

theorem create_payload_key_order_witness:
  \<open>json_dumps [(ascii ''name'', ascii ''N''), (ascii ''action_run_link'', ascii ''A''),
      (ascii ''timestamp'', ascii ''T''), (ascii ''email'', ascii ''E''),
      (ascii ''resume_link'', ascii ''R''), (ascii ''repository_link'', ascii ''P'')]
   = ascii ''{"action_run_link":"A","email":"E","name":"N","repository_link":"P","resume_link":"R","timestamp":"T"}''\<close>
proof -
  have m: "mset [(ascii ''name'', ascii ''N''), (ascii ''action_run_link'', ascii ''A''),
      (ascii ''timestamp'', ascii ''T''), (ascii ''email'', ascii ''E''),
      (ascii ''resume_link'', ascii ''R''), (ascii ''repository_link'', ascii ''P'')]
    = mset (payload_dict (ascii ''T'') (ascii ''N'') (ascii ''E'') (ascii ''R'') (ascii ''P'')
        (ascii ''A''))"
    by (simp add: payload_dict_def)
  show ?thesis
    using create_payload_key_order [OF m]
    by (simp add: ascii_def encode_basestring_def escape_char_def escape_matches_def)
qed

text \<open>
  C8. In the output of \<open>create_payload\<close> every value stands between two quotes as the
  concatenation of the images of its characters under \<open>escape_char\<close>. A non-ASCII
  character is its own image, a single character and no \<open>\u\<close> sequence; the characters
  that are changed are exactly the quote, the backslash and those below \<open>0x20\<close>, and
  what replaces them starts with a backslash.
\<close>

theorem create_payload_escaping:
  \<open>create_payload t n e r p a =
      ascii ''{"action_run_link":'' @ encode_basestring a
    @ ascii '',"email":'' @ encode_basestring e
    @ ascii '',"name":'' @ encode_basestring n
    @ ascii '',"repository_link":'' @ encode_basestring p
    @ ascii '',"resume_link":'' @ encode_basestring r
    @ ascii '',"timestamp":'' @ encode_basestring t
    @ ascii ''}''
    \<and> encode_basestring v = [0x22] @ concat (map escape_char v) @ [0x22]
    \<and> (0x80 \<le> c \<longrightarrow> escape_char c = [c])
    \<and> (escape_char c \<noteq> [c] \<longleftrightarrow> c = 0x22 \<or> c = 0x5C \<or> c < 0x20)
    \<and> (escape_char c \<noteq> [c] \<longrightarrow> hd (escape_char c) = 0x5C)\<close>
proof -
  have "escape_char c \<noteq> [c] \<longrightarrow> hd (escape_char c) = 0x5C"
    by (simp add: escape_char_def escape_dct_def)
  moreover have "0x80 \<le> c \<longrightarrow> escape_char c = [c]"
    by (simp add: escape_char_unchanged_iff)
  ultimately show ?thesis
    unfolding create_payload_def
    by (simp only: json_dumps_payload [OF refl] escape_char_unchanged_iff encode_basestring_def
        simp_thms)
qed

theorem create_payload_escaping_witness:
  \<open>(0x80::nat) \<le> 0xE9 \<and> escape_char 0xE9 = [0xE9] \<and> escape_char 0x0A = [0x5C, 0x6E]
   \<and> create_payload (ascii ''T'') [0x4A, 0xE9, 0x65E5] (ascii ''E'') (ascii ''R'') (ascii ''P'')
        (ascii ''A'')
      = ascii ''{"action_run_link":"A","email":"E","name":"J'' @ [0xE9, 0x65E5]
        @ ascii ''","repository_link":"P","resume_link":"R","timestamp":"T"}''\<close>
  using create_payload_escaping [of "ascii ''T''" "[0x4A, 0xE9, 0x65E5]" "ascii ''E''"
      "ascii ''R''" "ascii ''P''" "ascii ''A''" "[]" "0xE9"]
  by (simp add: ascii_def encode_basestring_def escape_char_def escape_matches_def
      escape_dct_def)

section \<open>Properties of the timestamp generator\<close>

lemma dec_one_digit: "n < 10 \<Longrightarrow> dec n = [48 + n]"
  by (simp add: dec.simps)

lemma dec_two_digits: "10 \<le> n \<Longrightarrow> n < 100 \<Longrightarrow> dec n = [48 + n div 10, 48 + n mod 10]"
  by (subst dec.simps) (simp add: dec_one_digit)

lemma dec_three_digits:
  assumes "100 \<le> n" "n < 1000"
  shows "dec n = [48 + n div 100, 48 + n div 10 mod 10, 48 + n mod 10]"
proof -
  have a: "10 \<le> n div 10" "n div 10 < 100" using assms by arith+
  have b: "n div 10 div 10 = n div 100" by (simp add: div_mult2_eq)
  have c: "\<not> n < 10" using assms by simp
  have "dec n = dec (n div 10) @ [48 + n mod 10]" using c by (subst dec.simps) simp
  then show ?thesis using dec_two_digits [OF a] b by simp
qed

lemma dec_four_digits:
  assumes "1000 \<le> n" "n < 10000"
  shows "dec n = [48 + n div 1000, 48 + n div 100 mod 10, 48 + n div 10 mod 10, 48 + n mod 10]"
proof -
  have a: "100 \<le> n div 10" "n div 10 < 1000" using assms by arith+
  have b: "n div 10 div 100 = n div 1000" "n div 10 div 10 = n div 100"
    by (simp_all add: div_mult2_eq)
  have c: "\<not> n < 10" using assms by simp
  have "dec n = dec (n div 10) @ [48 + n mod 10]" using c by (subst dec.simps) simp
  then show ?thesis using dec_three_digits [OF a] b by simp
qed

lemma replicate_2: "replicate 2 x = [x, x]"
  by (simp add: numeral_2_eq_2)

lemma replicate_3: "replicate 3 x = [x, x, x]"
  by (simp add: numeral_3_eq_3)

lemma zero_pad_2: "n < 100 \<Longrightarrow> zero_pad 2 n = [48 + n div 10, 48 + n mod 10]"
  by (cases "n < 10") (simp_all add: zero_pad_def dec_one_digit dec_two_digits)

lemma zero_pad_3:
  assumes n: "n < 1000"
  shows "zero_pad 3 n = [48 + n div 100, 48 + n div 10 mod 10, 48 + n mod 10]"
proof -
  consider "n < 10" | "10 \<le> n" "n < 100" | "100 \<le> n" by linarith
  then show ?thesis
  proof cases
    case 1
    have "zero_pad 3 n = replicate 2 48 @ [48 + n]"
      by (simp add: zero_pad_def dec_one_digit [OF 1])
    then show ?thesis using 1 by (simp add: replicate_2)
  next
    case 2
    have "zero_pad 3 n = replicate (Suc 0) 48 @ [48 + n div 10, 48 + n mod 10]"
      by (simp add: zero_pad_def dec_two_digits [OF 2])
    then show ?thesis using 2 by simp
  next
    case 3
    then show ?thesis by (simp add: zero_pad_def dec_three_digits [OF 3 n])
  qed
qed

lemma zero_pad_4:
  assumes n: "n < 10000"
  shows "zero_pad 4 n =
    [48 + n div 1000, 48 + n div 100 mod 10, 48 + n div 10 mod 10, 48 + n mod 10]"
proof -
  consider "n < 10" | "10 \<le> n" "n < 100" | "100 \<le> n" "n < 1000" | "1000 \<le> n" by linarith
  then show ?thesis
  proof cases
    case 1
    have "zero_pad 4 n = replicate 3 48 @ [48 + n]"
      by (simp add: zero_pad_def dec_one_digit [OF 1])
    then show ?thesis using 1 by (simp add: replicate_3)
  next
    case 2
    have "zero_pad 4 n = replicate 2 48 @ [48 + n div 10, 48 + n mod 10]"
      by (simp add: zero_pad_def dec_two_digits [OF 2])
    then show ?thesis using 2 by (simp add: replicate_2)
  next
    case 3
    have "zero_pad 4 n = replicate (Suc 0) 48 @ [48 + n div 100, 48 + n div 10 mod 10, 48 + n mod 10]"
      by (simp add: zero_pad_def dec_three_digits [OF 3])
    then show ?thesis using 3 by simp
  next
    case 4
    then show ?thesis by (simp add: zero_pad_def dec_four_digits [OF 4 n])
  qed
qed

lemma replace_occurrences_at_end:
  "p \<notin> set xs \<Longrightarrow> replace_occurrences (p # ps) new (xs @ p # ps) = xs @ new"
proof (induction xs)
  case Nil
  then show ?case by (cases ps) simp_all
next
  case (Cons x xs)
  then show ?case by simp
qed

lemma days_in_month_le: "days_in_month y m \<le> 31"
  by (simp add: days_in_month_def)

lemma isoformat_valid:
  assumes "valid_datetime dt"
  shows "isoformat_milliseconds dt = timestamp_digits dt @ ascii ''+00:00''"
proof -
  have d: "day dt \<le> 31"
    using assms days_in_month_le [of "year dt" "month dt"] by (simp add: valid_datetime_def)
  have ms: "microsecond dt div 1000 < 1000"
    using assms unfolding valid_datetime_def by arith
  show ?thesis
    using assms d ms
    by (simp add: valid_datetime_def isoformat_milliseconds_def timestamp_digits_def
        zero_pad_2 zero_pad_3 zero_pad_4 ascii_def)
qed

lemma plus_not_in_digits:
  assumes "valid_datetime dt"
  shows "0x2B \<notin> set (timestamp_digits dt)"
proof -
  have "\<And>n::nat. 48 + n \<noteq> 43" by simp
  then show ?thesis
    by (simp add: timestamp_digits_def)
qed

lemma generate_timestamp_valid:
  assumes "valid_datetime dt"
  shows "generate_timestamp dt = timestamp_digits dt @ ascii ''Z''"
proof -
  have "replace_occurrences (0x2B # ascii ''00:00'') (ascii ''Z'') (timestamp_digits dt @ 0x2B # ascii ''00:00'')
      = timestamp_digits dt @ ascii ''Z''"
    by (rule replace_occurrences_at_end) (rule plus_not_in_digits [OF assms])
  moreover have "ascii ''+00:00'' = 0x2B # ascii ''00:00''" by (simp add: ascii_def)
  ultimately show ?thesis
    by (simp add: generate_timestamp_def str_replace_def isoformat_valid [OF assms])
qed

lemma digit_48: "n < 10 \<Longrightarrow> is_digit (48 + n)"
  by (simp add: is_digit_def)

lemma generate_timestamp_new_year:
  "generate_timestamp new_year_2024 = ascii ''2024-01-01T00:00:00.000Z''"
proof -
  have v: "valid_datetime new_year_2024"
    by (simp add: valid_datetime_def new_year_2024_def days_in_month_def)
  have "timestamp_digits new_year_2024 = ascii ''2024-01-01T00:00:00.000''"
    by (simp add: timestamp_digits_def new_year_2024_def ascii_def)
  then show ?thesis
    unfolding generate_timestamp_valid [OF v] by (simp add: ascii_def)
qed

text \<open>
  C7. For every instant the clock can return, the timestamp matches the pattern
  \<open>YYYY-MM-DDTHH:MM:SS.mmmZ\<close>: it has 24 characters, it ends in \<open>Z\<close>, it contains no
  \<open>+\<close> (so no \<open>+00:00\<close>), and the three digits after the point are the milliseconds.
\<close>

theorem generate_timestamp_format:
  assumes "valid_datetime now"
  shows "matches_timestamp_pattern (generate_timestamp now)
    \<and> length (generate_timestamp now) = 24
    \<and> last (generate_timestamp now) = 0x5A
    \<and> 0x2B \<notin> set (generate_timestamp now)
    \<and> take 3 (drop 20 (generate_timestamp now)) = zero_pad 3 (microsecond now div 1000)"
proof -
  have dd: "day now \<le> 31"
    using assms days_in_month_le [of "year now" "month now"] by (simp add: valid_datetime_def)
  have y: "year now div 1000 < 10"
    using assms by (intro less_mult_imp_div_less) (simp add: valid_datetime_def)
  have mo: "month now div 10 < 10"
    using assms by (intro less_mult_imp_div_less) (simp add: valid_datetime_def)
  have d: "day now div 10 < 10"
    using dd by (intro less_mult_imp_div_less) simp
  have h: "hour now div 10 < 10"
    using assms by (intro less_mult_imp_div_less) (simp add: valid_datetime_def)
  have mi: "minute now div 10 < 10"
    using assms by (intro less_mult_imp_div_less) (simp add: valid_datetime_def)
  have s: "second now div 10 < 10"
    using assms by (intro less_mult_imp_div_less) (simp add: valid_datetime_def)
  have ms: "microsecond now div 1000 < 1000"
    using assms by (intro less_mult_imp_div_less) (simp add: valid_datetime_def)
  have ms1: "microsecond now div 1000 div 100 < 10"
    using ms by (intro less_mult_imp_div_less) simp
  have g: "generate_timestamp now = timestamp_digits now @ ascii ''Z''"
    by (rule generate_timestamp_valid [OF assms])
  have 1: "matches_timestamp_pattern (timestamp_digits now @ ascii ''Z'')"
    using y mo d h mi s ms1
    by (simp add: matches_timestamp_pattern_def timestamp_digits_def ascii_def digit_48)
  have 2: "length (timestamp_digits now @ ascii ''Z'') = 24"
    by (simp add: timestamp_digits_def ascii_def)
  have 3: "last (timestamp_digits now @ ascii ''Z'') = 0x5A"
    by (simp add: ascii_def)
  have 4: "0x2B \<notin> set (timestamp_digits now @ ascii ''Z'')"
    using plus_not_in_digits [OF assms] by (simp add: ascii_def)
  have 5: "take 3 (drop 20 (timestamp_digits now @ ascii ''Z''))
      = zero_pad 3 (microsecond now div 1000)"
    by (simp add: zero_pad_3 [OF ms] timestamp_digits_def)
  show ?thesis
    unfolding g using 1 2 3 4 5 by (intro conjI)
qed

theorem generate_timestamp_format_witness:
  "valid_datetime new_year_2024
   \<and> generate_timestamp new_year_2024 = ascii ''2024-01-01T00:00:00.000Z''
   \<and> matches_timestamp_pattern (ascii ''2024-01-01T00:00:00.000Z'')"
proof -
  have v: "valid_datetime new_year_2024"
    by (simp add: valid_datetime_def new_year_2024_def days_in_month_def)
  show ?thesis
    using generate_timestamp_format [OF v] v by (simp add: generate_timestamp_new_year)
qed

section \<open>Properties of the signer\<close>

subsection \<open>Digest lengths and the construction\<close>

lemma length_state_bytes: "length (state_bytes H) = 32"
  by (cases H rule: state_bytes.cases) (simp add: be_bytes32_def)

lemma length_sha256: "length (sha256 m) = 32"
  by (simp add: sha256_def length_state_bytes)

lemma length_block_sized_key: "length (block_sized_key sha256 64 key) = 64"
  by (simp add: block_sized_key_def Let_def length_sha256)

lemma xor_bytes_replicate:
  "length xs = n \<Longrightarrow> xor_bytes xs (replicate n c) = map (\<lambda>x. x XOR c) xs"
proof (induction xs arbitrary: n)
  case Nil
  then show ?case by (simp add: xor_bytes_def)
next
  case (Cons x xs)
  then obtain m where n: "n = Suc m" and m: "length xs = m" by (cases n) auto
  have "xor_bytes xs (replicate m c) = map (\<lambda>x. x XOR c) xs"
    by (rule Cons.IH [OF m])
  then show ?case unfolding n by (simp add: xor_bytes_def)
qed

lemma hmac_new_standard: "hmac_new key msg = standard_hmac sha256 64 key msg"
proof -
  have "standard_hmac sha256 64 key msg =
      sha256 (map (\<lambda>x. x XOR 0x5C) (block_sized_key sha256 64 key)
        @ sha256 (map (\<lambda>x. x XOR 0x36) (block_sized_key sha256 64 key) @ msg))"
    by (simp add: standard_hmac_def Let_def xor_bytes_replicate [OF length_block_sized_key])
  then show ?thesis
    by (simp add: hmac_new_def block_sized_key_def Let_def)
qed

lemma length_hexdigest: "length (hexdigest bs) = 2 * length bs"
  by (induction bs) (simp_all add: hexdigest_def)

lemma hex_digit_lower: "n < 16 \<Longrightarrow> is_lower_hex (hex_digit n)"
  unfolding hex_digit_def is_lower_hex_def by (cases "n < 10") simp_all

lemma unat_byte: "unat (b :: byte) < 256"
  using unsigned_less [of b, where ?'a = nat] by simp

lemma hexdigest_lower_hex: "list_all is_lower_hex (hexdigest bs)"
proof (induction bs)
  case Nil
  then show ?case by (simp add: hexdigest_def)
next
  case (Cons b bs)
  have "unat b div 16 < 16"
    using unat_byte [of b] by (intro less_mult_imp_div_less) simp
  moreover have "unat b mod 16 < 16" by simp
  ultimately show ?case
    using Cons by (simp add: hexdigest_def hex_digit_lower)
qed

lemma compute_signature_encodable:
  "list_all encodable payload \<Longrightarrow> list_all encodable secret \<Longrightarrow>
     compute_signature payload secret
       = Inr (hexdigest (hmac_new (utf8_bytes secret) (utf8_bytes payload)))"
  by (simp add: compute_signature_def encode_utf8_def)

lemma encodable_ascii: "list_all encodable (ascii s)"
proof -
  have lt: "of_char c < (256 :: nat)" for c :: char
    by (simp add: of_char_def)
  have "encodable (of_char c)" for c :: char
    using lt [of c] unfolding encodable_def by linarith
  then show ?thesis by (simp add: ascii_def list_all_iff)
qed

text \<open>
  The second test case of RFC 4231: the key \<open>Jefe\<close> and the data
  \<open>what do ya want for nothing?\<close>.
\<close>

lemma hmac_test_vector:
  "hexdigest (hmac_new (utf8_bytes (ascii ''Jefe''))
       (utf8_bytes (ascii ''what do ya want for nothing?'')))
     = ascii ''5bdcc146bf60754e6a042426089575c75a003f089d2739839dec58b964ec3843''"
  by code_simp

subsection \<open>The claims about \<open>compute_signature\<close>\<close>

text \<open>
  C9. For a payload and a secret that have a UTF-8 encoding, \<open>compute_signature\<close>
  returns the tag of the standard HMAC construction with SHA-256 and its block size of 64
  bytes over the encoded key and message: all 32 bytes of it, written as 64 lower-case
  hexadecimal digits. Being a function of the two strings, it gives the same pair the same
  tag.
\<close>

theorem compute_signature_is_hmac_sha256:
  assumes "list_all encodable payload" and "list_all encodable secret"
  shows "compute_signature payload secret
       = Inr (hexdigest (standard_hmac sha256 64 (utf8_bytes secret) (utf8_bytes payload)))
    \<and> length (standard_hmac sha256 64 (utf8_bytes secret) (utf8_bytes payload)) = 32
    \<and> length (hexdigest (standard_hmac sha256 64 (utf8_bytes secret) (utf8_bytes payload))) = 64
    \<and> list_all is_lower_hex
        (hexdigest (standard_hmac sha256 64 (utf8_bytes secret) (utf8_bytes payload)))"
proof -
  have l: "length (standard_hmac sha256 64 (utf8_bytes secret) (utf8_bytes payload)) = 32"
    by (simp add: standard_hmac_def Let_def length_sha256)
  show ?thesis
    using compute_signature_encodable [OF assms] l
    by (simp add: hmac_new_standard length_hexdigest hexdigest_lower_hex)
qed

theorem compute_signature_is_hmac_sha256_witness:
  "list_all encodable (ascii ''what do ya want for nothing?'')
   \<and> list_all encodable (ascii ''Jefe'')
   \<and> compute_signature (ascii ''what do ya want for nothing?'') (ascii ''Jefe'')
     = Inr (ascii ''5bdcc146bf60754e6a042426089575c75a003f089d2739839dec58b964ec3843'')"
  using compute_signature_is_hmac_sha256 [OF encodable_ascii encodable_ascii,
      of "''what do ya want for nothing?''" "''Jefe''"]
  by (simp add: encodable_ascii hmac_new_standard [symmetric] hmac_test_vector)

text \<open>
  A payload that holds a lone surrogate has no UTF-8 encoding: \<open>encode\<close> raises, and no
  tag is returned.
\<close>

theorem surrogate_payload_not_signed:
  "compute_signature [0xDC80] (ascii ''s3cr3t'') = Inl UnicodeEncodeError"
  by (simp add: compute_signature_def encode_utf8_def encodable_def)

text \<open>
  C3. \<open>compute_signature\<close> makes no check on the secret. The only exception it raises
  is \<open>UnicodeEncodeError\<close>, exactly when the payload or the secret has no UTF-8
  encoding; given the empty secret it returns the tag computed with the empty key.
\<close>

theorem compute_signature_no_key_check:
  "(compute_signature payload secret = Inl e \<longleftrightarrow>
      e = UnicodeEncodeError \<and> \<not> (list_all encodable payload \<and> list_all encodable secret))
   \<and> (list_all encodable payload \<longrightarrow>
        compute_signature payload [] = Inr (hexdigest (hmac_new [] (utf8_bytes payload))))"
  by (auto simp: compute_signature_def encode_utf8_def utf8_bytes_def)

theorem compute_signature_no_key_check_witness:
  "list_all encodable (ascii ''{}'')
   \<and> compute_signature (ascii ''{}'') [] \<noteq> Inl UnicodeEncodeError
   \<and> compute_signature (ascii ''{}'') [] = Inr (hexdigest (hmac_new [] [0x7B, 0x7D]))"
  using compute_signature_no_key_check [of "ascii ''{}''" "[]" UnicodeEncodeError]
  by (simp add: encodable_def utf8_bytes_def utf8_char_def ascii_def)

text \<open>
  The empty secret raises nothing, and a secret that is not empty can raise.
\<close>

theorem empty_key_is_signed:
  "compute_signature (ascii ''{}'') [] = Inr (hexdigest (hmac_new [] [0x7B, 0x7D]))
   \<and> compute_signature (ascii ''{}'') [0xDC80] = Inl UnicodeEncodeError"
  by (simp add: compute_signature_def encode_utf8_def encodable_def utf8_bytes_def
      utf8_char_def ascii_def)

text \<open>
  C10. \<open>compute_signature\<close> returns a tag exactly when both strings have a UTF-8
  encoding, and the tag is then the HMAC whose key is the UTF-8 encoding of the secret and
  whose message is the UTF-8 encoding of the payload.
\<close>

theorem compute_signature_utf8:
  "compute_signature payload secret = Inr tag \<longleftrightarrow>
     list_all encodable payload \<and> list_all encodable secret
     \<and> tag = hexdigest (hmac_new (utf8_bytes secret) (utf8_bytes payload))"
  by (auto simp: compute_signature_def encode_utf8_def)

theorem compute_signature_utf8_witness:
  "compute_signature (ascii ''{}'') [0xE9, 0x20AC] = Inr (hexdigest (hmac_new [0xC3, 0xA9, 0xE2, 0x82, 0xAC] [0x7B, 0x7D]))"
  using compute_signature_utf8 [of "ascii ''{}''" "[0xE9, 0x20AC]"
      "hexdigest (hmac_new [0xC3, 0xA9, 0xE2, 0x82, 0xAC] [0x7B, 0x7D])"]
  by (simp add: encodable_def utf8_bytes_def utf8_char_def ascii_def)

section \<open>Properties of the program\<close>

subsection \<open>Rewriting a run\<close>




lemma io_bind_return: "io_bind (io_return a) f = f a"
  by (simp add: io_bind_def io_return_def)

lemma io_bind_print:
  "io_bind (print out s) f w =
     (if out s then f () (w\<lparr>stdout := stdout w @ [s]\<rparr>) else (Inl UnicodeEncodeError, w))"
  by (simp add: io_bind_def print_def)





lemma io_bind_lift: "io_bind (io_lift (Inr a)) f = f a"
  by (simp add: io_bind_def io_lift_def)

lemma io_bind_apply: "m w = (Inr a, w') \<Longrightarrow> io_bind m f w = f a w'"
  by (simp add: io_bind_def)

lemma submit_application_accepted:
  "submit_application accepting_server payload signature w =
     (Inr (Response 200 (ascii ''OK'') (ascii ''{}'') (ascii ''received'')),
      w\<lparr>requests := requests w @
        [\<lparr>url = ascii ''https://b12.io/apply/submission'', body = payload,
          headers = [(ascii ''Content-Type'', ascii ''application/json''),
                     (ascii ''X-Signature-256'', ascii ''sha256='' @ signature)],
          timeout = 30\<rparr>]\<rparr>)"
  by (simp add: submit_application_def accepting_server_def http_error_msg_def io_bind_def
      io_return_def)

lemma print_apply:
  "print out s w =
     (if out s then (Inr (), w\<lparr>stdout := stdout w @ [s]\<rparr>) else (Inl UnicodeEncodeError, w))"
  by (simp add: print_def)

subsection \<open>A variable that is not set\<close>







subsection \<open>A variable set to whitespace\<close>

lemma utf8_strict_ascii: "utf8_strict (ascii s)"
  by (simp add: utf8_strict_def encodable_ascii)

lemma utf8_strict_append: "utf8_strict (xs @ ys) \<longleftrightarrow> utf8_strict xs \<and> utf8_strict ys"
  by (simp add: utf8_strict_def)

lemma utf8_strict_newline: "utf8_strict (0x0A # xs) \<longleftrightarrow> utf8_strict xs"
  by (simp add: utf8_strict_def encodable_def)

lemma utf8_strict_nil: "utf8_strict []"
  by (simp add: utf8_strict_def)

lemma lower_hex_encodable: "is_lower_hex c \<Longrightarrow> encodable c"
  by (auto simp: is_lower_hex_def encodable_def)

lemma utf8_strict_hexdigest: "utf8_strict (hexdigest bs)"
  using hexdigest_lower_hex [of bs] lower_hex_encodable
  by (auto simp: utf8_strict_def list_all_iff)

lemmas utf8_strict_simps = utf8_strict_ascii utf8_strict_append utf8_strict_newline
  utf8_strict_nil utf8_strict_hexdigest

lemma get_env_variable_blank:
  "get_env_variable (complete_environ(ascii ''B12_NAME'' \<mapsto> ascii ''   '')) (ascii ''B12_NAME'')
     initial_world = (Inr [], initial_world)"
  by (simp add: get_env_variable_def io_return_def strip_def is_space_def ascii_def)

text \<open>
  C4. The value \<open>get_env_variable\<close> returns is tested for emptiness before it is
  stripped, not after. With \<open>B12_NAME\<close> set to three spaces and the other variables set,
  \<open>get_env_variable\<close> returns the empty string, and the body of the request sent holds
  an empty name.
\<close>

theorem blank_name_reaches_serializer:
  \<open>get_env_variable (complete_environ(ascii ''B12_NAME'' \<mapsto> ascii ''   '')) (ascii ''B12_NAME'')
      initial_world = (Inr [], initial_world)
   \<and> map body (requests (snd (run utf8_strict
        (complete_environ(ascii ''B12_NAME'' \<mapsto> ascii ''   ''))
        new_year_2024 accepting_server)))
     = [ascii ''{"action_run_link":"https://x/run/1","email":"ada@example.com","name":"","repository_link":"https://x/repo","resume_link":"https://x/r.pdf","timestamp":"2024-01-01T00:00:00.000Z"}'']\<close>
proof -
  let ?env = "complete_environ(ascii ''B12_NAME'' \<mapsto> ascii ''   '')"
  have g: "get_env_variable ?env (ascii ''B12_SECRET'') = io_return (ascii ''s3cr3t'')"
    "get_env_variable ?env (ascii ''B12_NAME'') = io_return []"
    "get_env_variable ?env (ascii ''B12_EMAIL'') = io_return (ascii ''ada@example.com'')"
    "get_env_variable ?env (ascii ''B12_RESUME_LINK'') = io_return (ascii ''https://x/r.pdf'')"
    "get_env_variable ?env (ascii ''B12_REPOSITORY_LINK'') = io_return (ascii ''https://x/repo'')"
    "get_env_variable ?env (ascii ''B12_ACTION_RUN_LINK'') = io_return (ascii ''https://x/run/1'')"
    by (simp_all add: get_env_variable_def complete_environ_def environ_of_def strip_def
        is_space_def ascii_def)
  have p: \<open>create_payload (ascii ''2024-01-01T00:00:00.000Z'') [] (ascii ''ada@example.com'')
      (ascii ''https://x/r.pdf'') (ascii ''https://x/repo'') (ascii ''https://x/run/1'')
     = ascii ''{"action_run_link":"https://x/run/1","email":"ada@example.com","name":"","repository_link":"https://x/repo","resume_link":"https://x/r.pdf","timestamp":"2024-01-01T00:00:00.000Z"}''\<close>
    by (simp add: create_payload_def payload_dict_def json_dumps_def ascii_def
        encode_basestring_def escape_char_def escape_matches_def)
  have s: "io_lift (compute_signature (ascii x) (ascii ''s3cr3t''))
      = io_lift (Inr (hexdigest (hmac_new (utf8_bytes (ascii ''s3cr3t'')) (utf8_bytes (ascii x)))))"
    for x
    by (simp add: compute_signature_encodable encodable_ascii)
  have t: "take 4 (ascii ''s3cr3t'') = ascii ''s3cr''"
    "dec (length (ascii ''s3cr3t'')) = ascii ''6''"
    "dec 200 = ascii ''200''"
    by (simp_all add: ascii_def dec.simps)
  have "map body (requests (snd (run utf8_strict ?env new_year_2024 accepting_server))) =
      [create_payload (ascii ''2024-01-01T00:00:00.000Z'') [] (ascii ''ada@example.com'')
        (ascii ''https://x/r.pdf'') (ascii ''https://x/repo'') (ascii ''https://x/run/1'')]"
    unfolding run_def main_def g generate_timestamp_new_year p s io_bind_return io_bind_lift t
    by (simp add: io_bind_print utf8_strict_simps io_bind_apply [OF submit_application_accepted]
        print_apply initial_world_def)
  then show ?thesis
    unfolding p using get_env_variable_blank by simp
qed

subsection \<open>What is printed about the secret\<close>

text \<open>
  C6. The third line printed holds the first four characters of the secret, which is all
  of it when the secret has no more than four. With \<open>B12_SECRET\<close> set to \<open>abc\<close>,
  which \<open>get_env_variable\<close> accepts, and the other variables set, the first three lines
  of standard output are the banner, the length of the secret and the whole secret.
\<close>

theorem short_secret_printed_in_full:
  "get_env_variable (complete_environ(ascii ''B12_SECRET'' \<mapsto> ascii ''abc''))
      (ascii ''B12_SECRET'') initial_world = (Inr (ascii ''abc''), initial_world)
   \<and> take 3 (stdout (snd (run utf8_strict
        (complete_environ(ascii ''B12_SECRET'' \<mapsto> ascii ''abc''))
        new_year_2024 accepting_server)))
     = [ascii ''=== B12 Application Submission ==='' @ [0x0A],
        ascii ''Secret length: 3 characters'',
        ascii ''Secret starts with: '' @ ascii ''abc'' @ ascii ''...'']"
proof -
  let ?env = "complete_environ(ascii ''B12_SECRET'' \<mapsto> ascii ''abc'')"
  have g: "get_env_variable ?env (ascii ''B12_SECRET'') = io_return (ascii ''abc'')"
    "get_env_variable ?env (ascii ''B12_NAME'') = io_return (ascii ''Ada Lovelace'')"
    "get_env_variable ?env (ascii ''B12_EMAIL'') = io_return (ascii ''ada@example.com'')"
    "get_env_variable ?env (ascii ''B12_RESUME_LINK'') = io_return (ascii ''https://x/r.pdf'')"
    "get_env_variable ?env (ascii ''B12_REPOSITORY_LINK'') = io_return (ascii ''https://x/repo'')"
    "get_env_variable ?env (ascii ''B12_ACTION_RUN_LINK'') = io_return (ascii ''https://x/run/1'')"
    by (simp_all add: get_env_variable_def complete_environ_def environ_of_def strip_def
        is_space_def ascii_def)
  have p: \<open>create_payload (ascii ''2024-01-01T00:00:00.000Z'') (ascii ''Ada Lovelace'')
      (ascii ''ada@example.com'') (ascii ''https://x/r.pdf'') (ascii ''https://x/repo'')
      (ascii ''https://x/run/1'')
     = ascii ''{"action_run_link":"https://x/run/1","email":"ada@example.com","name":"Ada Lovelace","repository_link":"https://x/repo","resume_link":"https://x/r.pdf","timestamp":"2024-01-01T00:00:00.000Z"}''\<close>
    by (simp add: create_payload_def payload_dict_def json_dumps_def ascii_def
        encode_basestring_def escape_char_def escape_matches_def)
  have s: "io_lift (compute_signature (ascii x) (ascii ''abc''))
      = io_lift (Inr (hexdigest (hmac_new (utf8_bytes (ascii ''abc'')) (utf8_bytes (ascii x)))))"
    for x
    by (simp add: compute_signature_encodable encodable_ascii)
  have t: "take 4 (ascii ''abc'') = ascii ''abc''"
    "dec (length (ascii ''abc'')) = ascii ''3''"
    "dec 200 = ascii ''200''"
    by (simp_all add: ascii_def dec.simps)
  have a: "ascii ''Secret length: '' @ ascii ''3'' @ ascii '' characters''
      = ascii ''Secret length: 3 characters''"
    by (simp add: ascii_def)
  have "take 3 (stdout (snd (run utf8_strict ?env new_year_2024 accepting_server)))
     = [ascii ''=== B12 Application Submission ==='' @ [0x0A],
        ascii ''Secret length: 3 characters'',
        ascii ''Secret starts with: '' @ ascii ''abc'' @ ascii ''...'']"
    unfolding run_def main_def g generate_timestamp_new_year p s io_bind_return io_bind_lift t a
    by (simp add: io_bind_print utf8_strict_simps io_bind_apply [OF submit_application_accepted]
        print_apply initial_world_def)
  moreover have "get_env_variable ?env (ascii ''B12_SECRET'') initial_world
      = (Inr (ascii ''abc''), initial_world)"
    by (simp add: g io_return_def)
  ultimately show ?thesis by simp
qed

end
